theory Spec2Isabelle
  imports Complex_Main "HOL-Library.Sublist" "HOL-Library.Multiset"
begin

section \<open>Route data: coordinates, anchor routes, densification\<close>

text \<open>
  The module \<^verbatim>\<open>route_data.py\<close> holds hardcoded highway anchor points, a helper that
  densifies a polyline by inserting interpolated points, the densified route dictionaries,
  hardcoded delivery pairs and two accessors.  A coordinate is the Python tuple
  \<^verbatim>\<open>(lat, lon)\<close> of two floats.  Floats are represented by reals here: the
  properties below concern the shape of the lists and the interpolation expression that
  the code evaluates, not the rounding of its result.
\<close>

type_synonym LatLon = "real \<times> real"

subsection \<open>Highway anchor routes (lines 20--90)\<close>

definition sf_to_sj_us101_anchors :: "LatLon list" where
  "sf_to_sj_us101_anchors =
    [(37.7749, -122.4194),
     (37.7577, -122.3953),
     (37.7300, -122.3920),
     (37.7060, -122.4050),
     (37.6160, -122.3920),
     (37.5900, -122.3460),
     (37.5500, -122.3040),
     (37.5100, -122.2700),
     (37.4852, -122.2364),
     (37.4419, -122.1430),
     (37.4040, -122.0790),
     (37.3688, -122.0363),
     (37.3541, -121.9552),
     (37.3382, -121.8863)]"

definition sf_to_sj_i280_anchors :: "LatLon list" where
  "sf_to_sj_i280_anchors =
    [(37.7749, -122.4194),
     (37.7440, -122.4310),
     (37.7083, -122.4500),
     (37.6700, -122.4600),
     (37.6300, -122.4400),
     (37.5900, -122.4200),
     (37.5400, -122.3500),
     (37.4600, -122.2500),
     (37.4000, -122.2200),
     (37.3500, -122.0900),
     (37.3200, -122.0500),
     (37.3050, -121.9200),
     (37.3382, -121.8863)]"

definition sf_to_sac_i80_anchors :: "LatLon list" where
  "sf_to_sac_i80_anchors =
    [(37.7950, -122.3930),
     (37.8200, -122.3700),
     (37.8100, -122.3000),
     (37.8300, -122.2900),
     (37.8700, -122.3000),
     (37.9200, -122.3300),
     (38.0200, -122.2600),
     (38.1100, -122.2400),
     (38.2000, -122.1200),
     (38.2700, -122.0300),
     (38.3600, -121.9900),
     (38.4700, -121.7800),
     (38.5500, -121.7400),
     (38.5800, -121.5300),
     (38.5816, -121.4944)]"

definition oakland_to_sj_i880_anchors :: "LatLon list" where
  "oakland_to_sj_i880_anchors =
    [(37.8044, -122.2712),
     (37.7900, -122.2600),
     (37.7700, -122.2400),
     (37.7300, -122.2100),
     (37.7000, -122.1900),
     (37.6700, -122.1500),
     (37.6300, -122.1200),
     (37.6000, -122.0700),
     (37.5500, -122.0400),
     (37.5200, -122.0000),
     (37.4700, -121.9600),
     (37.4400, -121.9200),
     (37.4000, -121.9200),
     (37.3500, -121.9100),
     (37.3382, -121.8863)]"

subsection \<open>Densification helper (lines 97--133)\<close>

text \<open>
  The body of the inner loop (lines 124--126): for the loop variable \<open>k\<close> the parameter is
  \<^verbatim>\<open>t = k / (points_per_segment + 1)\<close> (true division of two Python ints; the divisor
  is positive whenever the loop runs) and the new point is
  \<^verbatim>\<open>(lat1 + t * (lat2 - lat1), lon1 + t * (lon2 - lon1))\<close>.
\<close>

definition interpolate :: "LatLon \<Rightarrow> LatLon \<Rightarrow> int \<Rightarrow> int \<Rightarrow> LatLon" where
  "interpolate p1 p2 points_per_segment k =
     (let (lat1, lon1) = p1;
          (lat2, lon2) = p2;
          t = real_of_int k / real_of_int (points_per_segment + 1);
          lat = lat1 + t * (lat2 - lat1);
          lon = lon1 + t * (lon2 - lon1)
      in (lat, lon))"

text \<open>
  One iteration of the outer loop (lines 115--131) for the index \<open>i\<close>, acting on the list
  \<open>dense\<close> built so far.  The loop only runs for \<open>i < len(polyline) - 1\<close>, so both reads
  \<^verbatim>\<open>polyline[i]\<close> and \<^verbatim>\<open>polyline[i + 1]\<close> are in range.  The inner
  \<^verbatim>\<open>for k in range(1, points_per_segment + 1)\<close> appends one point per \<open>k\<close>.
\<close>

definition densify_segment :: "LatLon list \<Rightarrow> int \<Rightarrow> LatLon list \<Rightarrow> nat \<Rightarrow> LatLon list" where
  "densify_segment polyline points_per_segment dense i =
     (let p1 = polyline ! i;
          p2 = polyline ! (i + 1);
          dense1 = (if i = 0 then dense @ [p1] else dense);
          dense2 = foldl (\<lambda>d k. d @ [interpolate p1 p2 points_per_segment k])
                     dense1 [1..points_per_segment]
      in if int i = int (length polyline) - 2 then dense2 @ [p2] else dense2)"

text \<open>
  The function itself: the guard of line 109 returns a copy of the input; otherwise the
  outer loop runs over \<^verbatim>\<open>range(len(polyline) - 1)\<close> starting from the empty list.
\<close>

definition densify_polyline :: "LatLon list \<Rightarrow> int \<Rightarrow> LatLon list" where
  "densify_polyline polyline points_per_segment =
     (if length polyline < 2 \<or> points_per_segment \<le> 0 then polyline
      else foldl (densify_segment polyline points_per_segment) []
             [0..<length polyline - 1])"

text \<open>
  For the statements below: the points that the inner loop appends for the segment from
  \<open>polyline ! i\<close> to \<open>polyline ! (i + 1)\<close>, in the order of the loop.
\<close>

definition segment_points :: "LatLon list \<Rightarrow> int \<Rightarrow> nat \<Rightarrow> LatLon list" where
  "segment_points polyline points_per_segment i =
     map (interpolate (polyline ! i) (polyline ! (i + 1)) points_per_segment) [1..points_per_segment]"

subsection \<open>Route dictionaries\<close>

text \<open>
  A Python dict keeps its insertion order, and \<^verbatim>\<open>get_all_delivery_pairs\<close> depends on
  it, so a dict is an association list here.  The module binds
  \<^verbatim>\<open>base_highway_routes\<close> and \<^verbatim>\<open>hd_highway_routes\<close> twice (lines 150--161 and
  again lines 282--295); the later bindings replace the earlier ones before the module
  finishes loading, and they are the ones every importer reads.
\<close>

definition anchor_highway_routes :: "(string \<times> LatLon list) list" where
  "anchor_highway_routes =
    [(''sf_to_sj_us101_anchor'', sf_to_sj_us101_anchors),
     (''sf_to_sj_i280_anchor'', sf_to_sj_i280_anchors),
     (''sf_to_sac_i80_anchor'', sf_to_sac_i80_anchors),
     (''oakland_to_sj_i880_anchor'', oakland_to_sj_i880_anchors)]"

definition base_highway_routes :: "(string \<times> LatLon list) list" where
  "base_highway_routes =
    [(''sf_to_sj_us101'', densify_polyline sf_to_sj_us101_anchors 4),
     (''sf_to_sj_i280'', densify_polyline sf_to_sj_i280_anchors 4),
     (''sf_to_sac_i80'', densify_polyline sf_to_sac_i80_anchors 4),
     (''oakland_to_sj_i880'', densify_polyline oakland_to_sj_i880_anchors 4)]"

definition hd_highway_routes :: "(string \<times> LatLon list) list" where
  "hd_highway_routes =
    [(''sf_to_sj_us101_hd'', densify_polyline sf_to_sj_us101_anchors 10),
     (''sf_to_sj_i280_hd'', densify_polyline sf_to_sj_i280_anchors 10),
     (''sf_to_sac_i80_hd'', densify_polyline sf_to_sac_i80_anchors 10),
     (''oakland_to_sj_i880_hd'', densify_polyline oakland_to_sj_i880_anchors 10)]"

subsection \<open>Delivery route pairs (lines 169--307)\<close>

definition us101_delivery_routes :: "(LatLon \<times> LatLon) list" where
  "us101_delivery_routes =
    [((37.7749, -122.4194), (37.6160, -122.3920)),
     ((37.7577, -122.3953), (37.5500, -122.3040)),
     ((37.7300, -122.3920), (37.4852, -122.2364)),
     ((37.6160, -122.3920), (37.4419, -122.1430)),
     ((37.5900, -122.3460), (37.4040, -122.0790)),
     ((37.5500, -122.3040), (37.3688, -122.0363)),
     ((37.5100, -122.2700), (37.3541, -121.9552)),
     ((37.4852, -122.2364), (37.3382, -121.8863)),
     ((37.5900, -122.3460), (37.5500, -122.3040)),
     ((37.5500, -122.3040), (37.5100, -122.2700)),
     ((37.5100, -122.2700), (37.4852, -122.2364)),
     ((37.4419, -122.1430), (37.4040, -122.0790)),
     ((37.4040, -122.0790), (37.3688, -122.0363)),
     ((37.3688, -122.0363), (37.3541, -121.9552)),
     ((37.3541, -121.9552), (37.3382, -121.8863)),
     ((37.7749, -122.4194), (37.3382, -121.8863)),
     ((37.6160, -122.3920), (37.3382, -121.8863))]"

definition i280_delivery_routes :: "(LatLon \<times> LatLon) list" where
  "i280_delivery_routes =
    [((37.7749, -122.4194), (37.7083, -122.4500)),
     ((37.7440, -122.4310), (37.6300, -122.4400)),
     ((37.7083, -122.4500), (37.5900, -122.4200)),
     ((37.5900, -122.4200), (37.4600, -122.2500)),
     ((37.5400, -122.3500), (37.4000, -122.2200)),
     ((37.4600, -122.2500), (37.3500, -122.0900)),
     ((37.4000, -122.2200), (37.3200, -122.0500)),
     ((37.3500, -122.0900), (37.3382, -121.8863)),
     ((37.7749, -122.4194), (37.3382, -121.8863)),
     ((37.5900, -122.4200), (37.3382, -121.8863))]"

definition i80_delivery_routes :: "(LatLon \<times> LatLon) list" where
  "i80_delivery_routes =
    [((37.7950, -122.3930), (37.8100, -122.3000)),
     ((37.7950, -122.3930), (37.8300, -122.2900)),
     ((37.8100, -122.3000), (37.8700, -122.3000)),
     ((37.8300, -122.2900), (37.9200, -122.3300)),
     ((37.8700, -122.3000), (38.0200, -122.2600)),
     ((37.9200, -122.3300), (38.1100, -122.2400)),
     ((38.0200, -122.2600), (38.2000, -122.1200)),
     ((38.1100, -122.2400), (38.2700, -122.0300)),
     ((38.2000, -122.1200), (38.3600, -121.9900)),
     ((38.2700, -122.0300), (38.4700, -121.7800)),
     ((38.3600, -121.9900), (38.5500, -121.7400)),
     ((38.4700, -121.7800), (38.5500, -121.7400)),
     ((38.5500, -121.7400), (38.5816, -121.4944)),
     ((38.5800, -121.5300), (38.5816, -121.4944)),
     ((37.7950, -122.3930), (38.5816, -121.4944)),
     ((37.8700, -122.3000), (38.5816, -121.4944)),
     ((38.1100, -122.2400), (38.5816, -121.4944))]"

definition i880_delivery_routes :: "(LatLon \<times> LatLon) list" where
  "i880_delivery_routes =
    [((37.8044, -122.2712), (37.7300, -122.2100)),
     ((37.7900, -122.2600), (37.7000, -122.1900)),
     ((37.7700, -122.2400), (37.6700, -122.1500)),
     ((37.7300, -122.2100), (37.6300, -122.1200)),
     ((37.7000, -122.1900), (37.6000, -122.0700)),
     ((37.6700, -122.1500), (37.5500, -122.0400)),
     ((37.6300, -122.1200), (37.5200, -122.0000)),
     ((37.6000, -122.0700), (37.4700, -121.9600)),
     ((37.5500, -122.0400), (37.4400, -121.9200)),
     ((37.5200, -122.0000), (37.4000, -121.9200)),
     ((37.4700, -121.9600), (37.3500, -121.9100)),
     ((37.4400, -121.9200), (37.3382, -121.8863)),
     ((37.8044, -122.2712), (37.3382, -121.8863)),
     ((37.7300, -122.2100), (37.3382, -121.8863)),
     ((37.6300, -122.1200), (37.3382, -121.8863)),
     ((37.5500, -122.0400), (37.3382, -121.8863))]"

definition delivery_route_pairs :: "(string \<times> (LatLon \<times> LatLon) list) list" where
  "delivery_route_pairs =
    [(''us101_deliveries'', us101_delivery_routes),
     (''i280_deliveries'', i280_delivery_routes),
     (''i80_deliveries'', i80_delivery_routes),
     (''i880_deliveries'', i880_delivery_routes)]"

subsection \<open>Convenience functions (lines 314--342)\<close>

datatype error = ValueError string

text \<open>
  \<^verbatim>\<open>get_all_delivery_pairs\<close>: the loop over \<^verbatim>\<open>delivery_route_pairs.values()\<close>
  extends the accumulator by each list in dictionary order.
\<close>

definition get_all_delivery_pairs :: "(LatLon \<times> LatLon) list" where
  "get_all_delivery_pairs =
     foldl (\<lambda>all_pairs pairs. all_pairs @ pairs) [] (map snd delivery_route_pairs)"

text \<open>
  The local dict of \<^verbatim>\<open>get_delivery_pairs_for_route\<close>, and the text that Python prints
  for \<^verbatim>\<open>list(mapping.keys())\<close> inside the error message: each key between single
  quotes (no key holds a character that \<^verbatim>\<open>repr\<close> would escape), separated by a comma
  and a space, in brackets.
\<close>

definition mapping :: "(string \<times> (LatLon \<times> LatLon) list) list" where
  "mapping =
    [(''sf_to_sj_us101'', us101_delivery_routes),
     (''sf_to_sj_i280'', i280_delivery_routes),
     (''sf_to_sac_i80'', i80_delivery_routes),
     (''oakland_to_sj_i880'', i880_delivery_routes)]"

fun join_keys :: "string list \<Rightarrow> string" where
  "join_keys [] = []"
| "join_keys [k] = [CHR 0x27] @ k @ [CHR 0x27]"
| "join_keys (k # ks) = [CHR 0x27] @ k @ [CHR 0x27] @ '', '' @ join_keys ks"

definition repr_keys :: "string list \<Rightarrow> string" where
  "repr_keys ks = ''['' @ join_keys ks @ '']''"

definition get_delivery_pairs_for_route :: "string \<Rightarrow> error + (LatLon \<times> LatLon) list" where
  "get_delivery_pairs_for_route route_name =
     (case map_of mapping route_name of
        None \<Rightarrow>
          Inl (ValueError (''Unknown route: '' @ route_name @ ''. Choose from ''
                 @ repr_keys (map fst mapping)))
      | Some pairs \<Rightarrow> Inr pairs)"

section \<open>The corridor core\<close>

text \<open>
  The callers in \<^verbatim>\<open>examples.py\<close> receive the two core operations as arguments (lines
  18, 39--51); no Python module of the repository defines them.  The definitions of this
  section follow the written specification of the core instead.  Where the specification
  leaves a quantity open, the simplest reading it names is taken and said so; the
  along-axis margin, which it only calls small, is an argument.  The optional iterative
  sizing method is not modelled: \<open>compute_oriented_corridor\<close> is the percentile method.
\<close>

text \<open>
  Modelled from the spec: the three error kinds of the core, missing from the sources.
\<close>

datatype corridor_error = DegenerateRouteError | InsufficientPairsError | InvalidInputError

text \<open>
  Modelled from the spec: the Oriented Rectangle of the data model, missing from the
  sources.  It is defined by an angle in degrees from east, a center point and two
  half-extents.
\<close>

record corridor =
  angle :: real
  center :: LatLon
  along_extent :: real
  cross_extent :: real

text \<open>
  Modelled from the spec: the Orientation Estimator, missing from the sources.  The
  heading is the direction from the first to the last point of the path, in degrees from
  east (east is growing longitude), normalised to \<open>[-90, 90)\<close>: a line and its twin rotated
  by 180 degrees are the same, so the direction \<open>(east, north)\<close> has the angle
  \<open>arctan (north / east)\<close>, and a line due north or south has \<open>-90\<close>.  With zero
  displacement no heading is derivable and the estimator fails.  It is only called on
  paths of at least two points.
\<close>

definition estimate_orientation :: "LatLon list \<Rightarrow> corridor_error + real" where
  "estimate_orientation path =
     (let (lat1, lon1) = hd path;
          (lat2, lon2) = last path;
          east = lon2 - lon1;
          north = lat2 - lat1
      in if east = 0 \<and> north = 0 then Inl DegenerateRouteError
         else if east = 0 then Inr (- 90)
         else Inr (arctan (north / east) * 180 / pi))"

text \<open>
  Modelled from the spec: the Axis-Aligned Projector, missing from the sources.  The
  planar unit is the degree (the scaled-degree approximation with scale one): a point is
  taken relative to the reference origin and rotated by the heading, so that \<open>u\<close> is the
  signed distance along the heading and \<open>v\<close> the signed perpendicular distance.
\<close>

definition project :: "real \<Rightarrow> LatLon \<Rightarrow> LatLon \<Rightarrow> real \<times> real" where
  "project \<theta> origin p =
     (let (lat0, lon0) = origin;
          (lat, lon) = p;
          x = lon - lon0;
          y = lat - lat0;
          c = cos (\<theta> * pi / 180);
          s = sin (\<theta> * pi / 180)
      in (x * c + y * s, y * c - x * s))"

text \<open>
  Modelled from the spec: the inverse of the projector, missing from the sources.  Given
  \<open>(u, v)\<close>, the heading and the same reference origin it rotates back and translates.
\<close>

definition unproject :: "real \<Rightarrow> LatLon \<Rightarrow> real \<times> real \<Rightarrow> LatLon" where
  "unproject \<theta> origin uv =
     (let (lat0, lon0) = origin;
          (u, v) = uv;
          c = cos (\<theta> * pi / 180);
          s = sin (\<theta> * pi / 180)
      in (lat0 + (u * s + v * c), lon0 + (u * c - v * s)))"

text \<open>
  Modelled from the spec: the midpoint of the path, missing from the sources.  It is taken
  between the first and the last point; it is the center of the corridor and the reference
  origin of the projection.
\<close>

definition path_midpoint :: "LatLon list \<Rightarrow> LatLon" where
  "path_midpoint path =
     (let (lat1, lon1) = hd path;
          (lat2, lon2) = last path
      in ((lat1 + lat2) / 2, (lon1 + lon2) / 2))"

text \<open>
  Modelled from the spec: the cross-axis distance of a point, missing from the sources.
  It is the absolute value of \<open>v\<close>.
\<close>

definition cross_distance :: "real \<Rightarrow> LatLon \<Rightarrow> LatLon \<Rightarrow> real" where
  "cross_distance \<theta> origin p = \<bar>snd (project \<theta> origin p)\<bar>"

text \<open>
  Modelled from the spec: the along-axis distance of a point, missing from the sources.
  It is the absolute value of \<open>u\<close>.
\<close>

definition along_distance :: "real \<Rightarrow> LatLon \<Rightarrow> LatLon \<Rightarrow> real" where
  "along_distance \<theta> origin p = \<bar>fst (project \<theta> origin p)\<bar>"

text \<open>
  Modelled from the spec: the governing quantity of a pair, missing from the sources.  A
  pair is contained only when both endpoints are, so it is the larger of the cross-axis
  distances of origin and destination.
\<close>

definition governing_distance :: "real \<Rightarrow> LatLon \<Rightarrow> LatLon \<times> LatLon \<Rightarrow> real" where
  "governing_distance \<theta> origin pair =
     (let (origin_point, destination) = pair
      in max (cross_distance \<theta> origin origin_point) (cross_distance \<theta> origin destination))"

text \<open>
  Modelled from the spec: the percentile selection, missing from the sources.  The
  per-pair maxima are sorted ascending and the \<open>k\<close>-th smallest is selected.
\<close>

definition percentile_cross_extent :: "real list \<Rightarrow> nat \<Rightarrow> real" where
  "percentile_cross_extent maxima k = sort maxima ! (k - 1)"

text \<open>
  Modelled from the spec: \<open>compute_oriented_corridor\<close> with the percentile method, missing
  from the sources.  A \<open>min_pairs\<close> that exceeds the number of pairs supplied makes the
  guarantee unsatisfiable whatever the path is, and the specification requires
  \<open>InsufficientPairsError\<close> for it without a condition on the path, so this test comes
  first.  Input validation follows (a path shorter than two points, or a \<open>min_pairs\<close> that
  is zero or negative; a real is always finite).  Then the data flows as the specification
  orders its components: the Orientation Estimator, whose failure is propagated; the
  projection of the path, whose half span plus the margin gives the along-axis
  half-extent; and the sizer, which takes the \<open>min_pairs\<close>-th smallest governing distance
  as cross-axis half-extent.
\<close>

definition compute_oriented_corridor ::
    "real \<Rightarrow> LatLon list \<Rightarrow> (LatLon \<times> LatLon) list \<Rightarrow> int \<Rightarrow> corridor_error + corridor" where
  "compute_oriented_corridor margin path pairs min_pairs =
     (if int (length pairs) < min_pairs then Inl InsufficientPairsError
      else if length path < 2 \<or> min_pairs \<le> 0 then Inl InvalidInputError
      else case estimate_orientation path of
        Inl e \<Rightarrow> Inl e
      | Inr \<theta> \<Rightarrow>
          (let origin = path_midpoint path;
               us = map (\<lambda>p. fst (project \<theta> origin p)) path;
               along = (Max (set us) - Min (set us)) / 2 + margin;
               maxima = map (governing_distance \<theta> origin) pairs;
               cross = percentile_cross_extent maxima (nat min_pairs)
           in Inr \<lparr>angle = \<theta>, center = origin,
                    along_extent = along, cross_extent = cross\<rparr>))"

text \<open>
  Modelled from the spec: the external form of the rectangle, missing from the sources.
  The four extent corners \<open>(\<plusminus>along, \<plusminus>cross)\<close> are rotated back into the original frame
  and translated to the center, counter-clockwise.
\<close>

definition corridor_corners :: "corridor \<Rightarrow> LatLon list" where
  "corridor_corners r =
     map (unproject (angle r) (center r))
       [(- along_extent r, - cross_extent r), (along_extent r, - cross_extent r),
        (along_extent r, cross_extent r), (- along_extent r, cross_extent r)]"

text \<open>
  Modelled from the spec: the containment test, missing from the sources.  A coordinate is
  contained when, projected into the rectangle's frame, \<open>\<bar>u\<bar>\<close> is at most the along-axis
  half-extent and \<open>\<bar>v\<bar>\<close> at most the cross-axis half-extent, bounds included.
\<close>

definition in_corridor :: "corridor \<Rightarrow> LatLon \<Rightarrow> bool" where
  "in_corridor r p =
     (along_distance (angle r) (center r) p \<le> along_extent r \<and>
      cross_distance (angle r) (center r) p \<le> cross_extent r)"

text \<open>
  Modelled from the spec: \<open>filter_pairs_in_corridor\<close>, missing from the sources.  With
  \<open>require_both\<close> a pair is kept when both endpoints are contained, otherwise when either
  is.  The rectangle is given by its center and extents, which the specification takes as
  equivalent to corners plus angle.
\<close>

definition filter_pairs_in_corridor ::
    "(LatLon \<times> LatLon) list \<Rightarrow> corridor \<Rightarrow> bool \<Rightarrow> (LatLon \<times> LatLon) list" where
  "filter_pairs_in_corridor pairs r require_both =
     filter (\<lambda>(origin_point, destination).
               if require_both then in_corridor r origin_point \<and> in_corridor r destination
               else in_corridor r origin_point \<or> in_corridor r destination)
       pairs"

section \<open>Properties of the route data\<close>

subsection \<open>The shape of a densified polyline\<close>

text \<open>The inner loop appends the interpolated points in order.\<close>

lemma foldl_snoc_map: "foldl (\<lambda>d k. d @ [f k]) d ks = d @ map f ks"
  by (induction ks arbitrary: d) simp_all

lemma densify_segment_eq:
  "densify_segment p k dense i =
     (if i = 0 then dense @ [p ! 0] else dense) @ segment_points p k i
       @ (if Suc (Suc i) = length p then [p ! Suc i] else [])"
  by (auto simp: densify_segment_def Let_def foldl_snoc_map segment_points_def)

text \<open>
  The outer loop after \<open>m\<close> iterations: the first vertex, then the interpolated points of the
  segments seen so far, and the last vertex once the last segment is done.
\<close>

lemma densify_loop_prefix:
  assumes "0 < m" "Suc m \<le> length p"
  shows "foldl (densify_segment p k) [] [0..<m] =
           p ! 0 # concat (map (segment_points p k) [0..<m])
             @ (if Suc m = length p then [p ! m] else [])"
  using assms
proof (induction m)
  case 0
  then show ?case by simp
next
  case (Suc m)
  have step: "foldl (densify_segment p k) [] [0..<Suc m] =
                densify_segment p k (foldl (densify_segment p k) [] [0..<m]) m"
    by simp
  show ?case
  proof (cases "m = 0")
    case True
    have "foldl (densify_segment p k) [] [0..<Suc m] = densify_segment p k [] 0"
      using True by simp
    also have "\<dots> = p ! 0 # segment_points p k 0 @ (if Suc (Suc 0) = length p then [p ! Suc 0] else [])"
      by (simp add: densify_segment_eq)
    finally show ?thesis using True by simp
  next
    case False
    with Suc have IH: "foldl (densify_segment p k) [] [0..<m] =
           p ! 0 # concat (map (segment_points p k) [0..<m])" by simp
    have "densify_segment p k (foldl (densify_segment p k) [] [0..<m]) m =
            densify_segment p k (p ! 0 # concat (map (segment_points p k) [0..<m])) m"
      by (simp only: IH)
    also have "\<dots> = p ! 0 # concat (map (segment_points p k) [0..<Suc m])
             @ (if Suc (Suc m) = length p then [p ! Suc m] else [])"
      using False by (simp add: densify_segment_eq)
    finally show ?thesis using step by simp
  qed
qed

lemma densify_polyline_decomp:
  assumes "2 \<le> length p" "1 \<le> k"
  shows "densify_polyline p k =
           hd p # concat (map (segment_points p k) [0..<length p - 1]) @ [last p]"
proof -
  have ne: "p \<noteq> []" using assms by auto
  have "densify_polyline p k = foldl (densify_segment p k) [] [0..<length p - 1]"
    using assms by (simp add: densify_polyline_def)
  also have "\<dots> = p ! 0 # concat (map (segment_points p k) [0..<length p - 1])
             @ [p ! (length p - 1)]"
    using assms densify_loop_prefix [of "length p - 1" p k] by simp
  finally show ?thesis using ne by (simp add: hd_conv_nth last_conv_nth)
qed

lemma length_segment_points: "length (segment_points p k i) = nat k"
  by (simp add: segment_points_def)

lemma length_concat_const:
  "(\<And>x. x \<in> set xs \<Longrightarrow> length (f x) = c) \<Longrightarrow> length (concat (map f xs)) = length xs * c"
  by (induction xs) simp_all

lemma length_densify:
  assumes "2 \<le> length p" "1 \<le> k"
  shows "length (densify_polyline p k) = (length p - 1) * nat k + 2"
  using assms by (simp add: densify_polyline_decomp length_concat_const length_segment_points)

lemma set_segment_points:
  "x \<in> set (segment_points p k i) \<Longrightarrow>
     \<exists>j. 1 \<le> j \<and> j \<le> k \<and> x = interpolate (p ! i) (p ! (i + 1)) k j"
  by (auto simp: segment_points_def)

lemma interpolate_formula:
  "interpolate a b k j =
     (fst a + real_of_int j / real_of_int (k + 1) * (fst b - fst a),
      snd a + real_of_int j / real_of_int (k + 1) * (snd b - snd a))"
  by (simp add: interpolate_def Let_def split: prod.splits)

lemma densify_keeps_two_points:
  "2 \<le> length p \<Longrightarrow> 1 \<le> k \<Longrightarrow> 2 \<le> length (densify_polyline p k)"
  by (simp add: length_densify)

lemma anchor_lengths:
  "length sf_to_sj_us101_anchors = 14" "length sf_to_sj_i280_anchors = 13"
  "length sf_to_sac_i80_anchors = 15" "length oakland_to_sj_i880_anchors = 15"
  by (simp_all add: sf_to_sj_us101_anchors_def sf_to_sj_i280_anchors_def
        sf_to_sac_i80_anchors_def oakland_to_sj_i880_anchors_def)

subsection \<open>Claims about \<^verbatim>\<open>densify_polyline\<close>\<close>

text \<open>
  Claim C6: densification is by linear interpolation.  For a polyline of at least two points
  and \<open>points_per_segment \<ge> 1\<close>, every element of the result is the first input point, the
  last input point, or \<open>p\<^sub>i + (j / (k + 1)) * (p\<^sub>i\<^sub>+\<^sub>1 - p\<^sub>i)\<close> componentwise for two
  consecutive input points and some \<open>j\<close> with \<open>1 \<le> j \<le> k\<close>.
\<close>

theorem densify_polyline_linear_interpolation:
  assumes "2 \<le> length polyline" and "1 \<le> points_per_segment"
  shows "\<forall>x \<in> set (densify_polyline polyline points_per_segment).
           x = hd polyline \<or> x = last polyline \<or>
           (\<exists>i j. i + 1 < length polyline \<and> 1 \<le> j \<and> j \<le> points_per_segment \<and>
              x = (fst (polyline ! i) + real_of_int j / real_of_int (points_per_segment + 1)
                     * (fst (polyline ! (i + 1)) - fst (polyline ! i)),
                   snd (polyline ! i) + real_of_int j / real_of_int (points_per_segment + 1)
                     * (snd (polyline ! (i + 1)) - snd (polyline ! i))))"
proof
  fix x
  assume "x \<in> set (densify_polyline polyline points_per_segment)"
  then have "x = hd polyline \<or> x = last polyline \<or>
      (\<exists>i < length polyline - 1. x \<in> set (segment_points polyline points_per_segment i))"
    using assms by (auto simp: densify_polyline_decomp)
  then show "x = hd polyline \<or> x = last polyline \<or>
           (\<exists>i j. i + 1 < length polyline \<and> 1 \<le> j \<and> j \<le> points_per_segment \<and>
              x = (fst (polyline ! i) + real_of_int j / real_of_int (points_per_segment + 1)
                     * (fst (polyline ! (i + 1)) - fst (polyline ! i)),
                   snd (polyline ! i) + real_of_int j / real_of_int (points_per_segment + 1)
                     * (snd (polyline ! (i + 1)) - snd (polyline ! i))))"
  proof (elim disjE exE conjE)
    fix i
    assume i: "i < length polyline - 1"
      and "x \<in> set (segment_points polyline points_per_segment i)"
    then obtain j where "1 \<le> j" "j \<le> points_per_segment"
      "x = interpolate (polyline ! i) (polyline ! (i + 1)) points_per_segment j"
      using set_segment_points by blast
    then show ?thesis using i by (auto simp: interpolate_formula intro!: exI [of _ i] exI [of _ j])
  qed simp_all
qed

theorem densify_polyline_linear_interpolation_witness:
  "2 \<le> length [(0, 0), (3, 6) :: LatLon] \<and> (1::int) \<le> 2 \<and>
   (1, 2) \<in> set (densify_polyline [(0, 0), (3, 6)] 2) \<and>
   ((1, 2) = hd [(0, 0), (3, 6) :: LatLon] \<or> (1, 2) = last [(0, 0), (3, 6) :: LatLon] \<or>
    (\<exists>i j. i + 1 < length [(0, 0), (3, 6) :: LatLon] \<and> 1 \<le> j \<and> j \<le> (2::int) \<and>
       (1, 2) = (fst ([(0, 0), (3, 6) :: LatLon] ! i) + real_of_int j / real_of_int (2 + 1)
                     * (fst ([(0, 0), (3, 6) :: LatLon] ! (i + 1)) - fst ([(0, 0), (3, 6) :: LatLon] ! i)),
                 snd ([(0, 0), (3, 6) :: LatLon] ! i) + real_of_int j / real_of_int (2 + 1)
                     * (snd ([(0, 0), (3, 6) :: LatLon] ! (i + 1)) - snd ([(0, 0), (3, 6) :: LatLon] ! i)))))"
proof -
  have r: "[1..(2::int)] = [1, 2]" by code_simp
  have mem: "(1, 2) \<in> set (densify_polyline [(0, 0), (3, 6)] 2)"
    by (simp add: densify_polyline_def densify_segment_def interpolate_def r)
  have "\<forall>x \<in> set (densify_polyline [(0, 0), (3, 6)] 2).
           x = hd [(0, 0), (3, 6)] \<or> x = last [(0, 0), (3, 6)] \<or>
           (\<exists>i j. i + 1 < length [(0, 0), (3, 6) :: LatLon] \<and> 1 \<le> j \<and> j \<le> 2 \<and>
              x = (fst ([(0, 0), (3, 6)] ! i) + real_of_int j / real_of_int (2 + 1)
                     * (fst ([(0, 0), (3, 6)] ! (i + 1)) - fst ([(0, 0), (3, 6)] ! i)),
                   snd ([(0, 0), (3, 6)] ! i) + real_of_int j / real_of_int (2 + 1)
                     * (snd ([(0, 0), (3, 6)] ! (i + 1)) - snd ([(0, 0), (3, 6)] ! i))))"
    using densify_polyline_linear_interpolation [of "[(0, 0), (3, 6)]" 2] by simp
  from this mem have "(1, 2) = hd [(0, 0), (3, 6) :: LatLon] \<or> (1, 2) = last [(0, 0), (3, 6) :: LatLon] \<or>
    (\<exists>i j. i + 1 < length [(0, 0), (3, 6) :: LatLon] \<and> 1 \<le> j \<and> j \<le> (2::int) \<and>
       (1, 2) = (fst ([(0, 0), (3, 6) :: LatLon] ! i) + real_of_int j / real_of_int (2 + 1)
                     * (fst ([(0, 0), (3, 6) :: LatLon] ! (i + 1)) - fst ([(0, 0), (3, 6) :: LatLon] ! i)),
                 snd ([(0, 0), (3, 6) :: LatLon] ! i) + real_of_int j / real_of_int (2 + 1)
                     * (snd ([(0, 0), (3, 6) :: LatLon] ! (i + 1)) - snd ([(0, 0), (3, 6) :: LatLon] ! i))))"
    by (rule bspec)
  with mem show ?thesis by simp
qed

text \<open>
  Claim C8: when the polyline has fewer than two points, or \<open>points_per_segment \<le> 0\<close>,
  the result equals the input; the function has no failing branch.
\<close>

theorem densify_polyline_guard:
  "length polyline < 2 \<or> points_per_segment \<le> 0 \<Longrightarrow>
     densify_polyline polyline points_per_segment = polyline"
  by (simp add: densify_polyline_def)

theorem densify_polyline_guard_witness:
  "(length [(37.7749, -122.4194) :: LatLon] < 2 \<or> (4::int) \<le> 0) \<and>
   densify_polyline [(37.7749, -122.4194)] 4 = [(37.7749, -122.4194)] \<and>
   (length [(0, 0), (3, 6), (9, 9) :: LatLon] < 2 \<or> (0::int) \<le> 0) \<and>
   densify_polyline [(0, 0), (3, 6), (9, 9)] 0 = [(0, 0), (3, 6), (9, 9)]"
  using densify_polyline_guard [of "[(37.7749, -122.4194)]" 4]
    densify_polyline_guard [of "[(0, 0), (3, 6), (9, 9)]" 0]
  by simp


subsection \<open>Claims about the tables\<close>

text \<open>
  Claim C7: every path that the module supplies, that is every value of
  \<^verbatim>\<open>anchor_highway_routes\<close>, \<^verbatim>\<open>base_highway_routes\<close> and
  \<^verbatim>\<open>hd_highway_routes\<close>, is a list of coordinates with at least two elements.
\<close>

theorem supplied_paths_have_two_points:
  "\<forall>route \<in> set (map snd anchor_highway_routes @ map snd base_highway_routes
                     @ map snd hd_highway_routes). 2 \<le> length route"
  by (simp add: anchor_highway_routes_def base_highway_routes_def hd_highway_routes_def
        anchor_lengths densify_keeps_two_points)

theorem supplied_paths_have_two_points_witness:
  "densify_polyline sf_to_sj_us101_anchors 4
     \<in> set (map snd anchor_highway_routes @ map snd base_highway_routes
                     @ map snd hd_highway_routes) \<and>
   2 \<le> length (densify_polyline sf_to_sj_us101_anchors 4)"
proof -
  have mem: "densify_polyline sf_to_sj_us101_anchors 4
     \<in> set (map snd anchor_highway_routes @ map snd base_highway_routes
                     @ map snd hd_highway_routes)"
    by (simp add: base_highway_routes_def)
  with supplied_paths_have_two_points show ?thesis by blast
qed

text \<open>
  Claim C10: \<^verbatim>\<open>get_delivery_pairs_for_route\<close> raises \<^verbatim>\<open>ValueError\<close> exactly when the
  name is none of the four route names, returns the matching hardcoded list for each of
  the four, and \<^verbatim>\<open>get_all_delivery_pairs\<close> is the concatenation of the four lists in
  dictionary order.
\<close>

theorem delivery_pair_accessors:
  "((\<exists>msg. get_delivery_pairs_for_route route_name = Inl (ValueError msg)) \<longleftrightarrow>
      route_name \<notin> {''sf_to_sj_us101'', ''sf_to_sj_i280'', ''sf_to_sac_i80'',
                      ''oakland_to_sj_i880''}) \<and>
   get_delivery_pairs_for_route ''sf_to_sj_us101'' = Inr us101_delivery_routes \<and>
   get_delivery_pairs_for_route ''sf_to_sj_i280'' = Inr i280_delivery_routes \<and>
   get_delivery_pairs_for_route ''sf_to_sac_i80'' = Inr i80_delivery_routes \<and>
   get_delivery_pairs_for_route ''oakland_to_sj_i880'' = Inr i880_delivery_routes \<and>
   get_all_delivery_pairs =
     us101_delivery_routes @ i280_delivery_routes @ i80_delivery_routes @ i880_delivery_routes"
  by (simp add: get_delivery_pairs_for_route_def mapping_def get_all_delivery_pairs_def
        delivery_route_pairs_def)

theorem delivery_pair_accessors_witness:
  "get_delivery_pairs_for_route ''sf_to_sj_i5'' =
     Inl (ValueError (''Unknown route: sf_to_sj_i5. Choose from '' @
        ''['' @ [CHR 0x27] @ ''sf_to_sj_us101'' @ [CHR 0x27] @ '', '' @
        [CHR 0x27] @ ''sf_to_sj_i280'' @ [CHR 0x27] @ '', '' @
        [CHR 0x27] @ ''sf_to_sac_i80'' @ [CHR 0x27] @ '', '' @
        [CHR 0x27] @ ''oakland_to_sj_i880'' @ [CHR 0x27] @ '']'')) \<and>
   ''sf_to_sj_i5'' \<notin> {''sf_to_sj_us101'', ''sf_to_sj_i280'', ''sf_to_sac_i80'',
                      ''oakland_to_sj_i880''}"
  using delivery_pair_accessors [of "''sf_to_sj_i5''"]
  by (simp add: get_delivery_pairs_for_route_def mapping_def repr_keys_def)

section \<open>Properties of the corridor core\<close>

subsection \<open>Ranks in a sorted list\<close>

text \<open>
  Counting the elements that satisfy a predicate does not depend on the order of the list,
  so counts over the governing distances can be read off their ascending sort.
\<close>

lemma length_filter_mono:
  "(\<And>x. x \<in> set xs \<Longrightarrow> P x \<Longrightarrow> Q x) \<Longrightarrow> length (filter P xs) \<le> length (filter Q xs)"
  by (induction xs) auto

lemma length_filter_sort:
  "length (filter P (sort xs)) = length (filter P (xs :: real list))"
proof -
  have "mset (filter P (sort xs)) = mset (filter P xs)"
    by (simp add: mset_filter)
  then show ?thesis by (rule mset_eq_length)
qed

lemma sorted_rank_at_least:
  assumes "sorted (xs :: real list)" and "k < length xs"
  shows "Suc k \<le> length (filter (\<lambda>y. y \<le> xs ! k) xs)"
proof -
  have "{i. i \<le> k} \<subseteq> {i. i < length xs \<and> xs ! i \<le> xs ! k}"
    using assms by (auto intro: sorted_nth_mono)
  then have "card {i. i \<le> k} \<le> card {i. i < length xs \<and> xs ! i \<le> xs ! k}"
    by (intro card_mono) auto
  then show ?thesis by (simp add: length_filter_conv_card)
qed

lemma sorted_rank_below:
  assumes "sorted (xs :: real list)" and "k < length xs"
  shows "length (filter (\<lambda>y. y < xs ! k) xs) \<le> k"
proof -
  have "{i. i < length xs \<and> xs ! i < xs ! k} \<subseteq> {i. i < k}"
  proof
    fix i
    assume "i \<in> {i. i < length xs \<and> xs ! i < xs ! k}"
    then have i: "i < length xs" "xs ! i < xs ! k" by auto
    have "i < k"
    proof (rule ccontr)
      assume "\<not> i < k"
      then have "xs ! k \<le> xs ! i" using assms i by (intro sorted_nth_mono) auto
      with i show False by simp
    qed
    then show "i \<in> {i. i < k}" by simp
  qed
  then have "card {i. i < length xs \<and> xs ! i < xs ! k} \<le> card {i. i < k}"
    by (intro card_mono) auto
  then show ?thesis by (simp add: length_filter_conv_card)
qed

text \<open>
  The \<open>k\<close>-th smallest value admits at least \<open>k\<close> elements, and fewer than \<open>k\<close> elements
  lie strictly below it.
\<close>

lemma percentile_reaches_count:
  assumes "1 \<le> k" and "k \<le> length maxima"
  shows "k \<le> length (filter (\<lambda>y. y \<le> percentile_cross_extent maxima k) maxima)"
proof -
  have "Suc (k - 1) \<le> length (filter (\<lambda>y. y \<le> sort maxima ! (k - 1)) (sort maxima))"
    using assms by (intro sorted_rank_at_least) auto
  then show ?thesis using assms by (simp add: percentile_cross_extent_def length_filter_sort)
qed

lemma percentile_is_least:
  assumes "1 \<le> k" and "k \<le> length maxima"
  shows "length (filter (\<lambda>y. y < percentile_cross_extent maxima k) maxima) < k"
proof -
  have "length (filter (\<lambda>y. y < sort maxima ! (k - 1)) (sort maxima)) \<le> k - 1"
    using assms by (intro sorted_rank_below) auto
  then show ?thesis using assms by (simp add: percentile_cross_extent_def length_filter_sort)
qed

subsection \<open>When the corridor is defined\<close>

lemma estimate_orientation_defined:
  "hd path \<noteq> last path \<Longrightarrow> \<exists>\<theta>. estimate_orientation path = Inr \<theta>"
  by (auto simp: estimate_orientation_def Let_def split: prod.splits)

lemma compute_oriented_corridor_returns:
  assumes "2 \<le> length path" and "hd path \<noteq> last path"
    and "1 \<le> min_pairs" and "min_pairs \<le> int (length pairs)"
  shows "\<exists>r. compute_oriented_corridor margin path pairs min_pairs = Inr r"
proof -
  obtain \<theta> where "estimate_orientation path = Inr \<theta>"
    using assms(2) estimate_orientation_defined by blast
  then show ?thesis using assms by (simp add: compute_oriented_corridor_def Let_def)
qed

lemma compute_oriented_corridor_Inr:
  assumes "compute_oriented_corridor margin path pairs min_pairs = Inr r"
  shows "2 \<le> length path" and "1 \<le> min_pairs" and "min_pairs \<le> int (length pairs)"
    and "estimate_orientation path = Inr (angle r)"
    and "center r = path_midpoint path"
    and "cross_extent r =
           percentile_cross_extent (map (governing_distance (angle r) (center r)) pairs)
             (nat min_pairs)"
  using assms
  by (auto simp: compute_oriented_corridor_def Let_def split: if_splits sum.splits)

lemma in_corridor_pair:
  "in_corridor r a \<and> in_corridor r b \<longleftrightarrow>
     along_distance (angle r) (center r) a \<le> along_extent r \<and>
     along_distance (angle r) (center r) b \<le> along_extent r \<and>
     governing_distance (angle r) (center r) (a, b) \<le> cross_extent r"
  by (auto simp: in_corridor_def governing_distance_def)

subsection \<open>The projector and its inverse\<close>

text \<open>
  In exact arithmetic the projector and its inverse undo each other, and the corners of a
  corridor project onto the four extent corners.
\<close>

lemma rotate_back:
  fixes c s :: real
  assumes "s * s + c * c = 1"
  shows "(u * c - v * s) * c + (u * s + v * c) * s = u"
    and "(u * s + v * c) * c - (u * c - v * s) * s = v"
proof -
  have "(u * c - v * s) * c + (u * s + v * c) * s = u * (s * s + c * c)"
    by (simp add: algebra_simps)
  then show "(u * c - v * s) * c + (u * s + v * c) * s = u" using assms by simp
  have "(u * s + v * c) * c - (u * c - v * s) * s = v * (s * s + c * c)"
    by (simp add: algebra_simps)
  then show "(u * s + v * c) * c - (u * c - v * s) * s = v" using assms by simp
qed

lemma rotate_forth:
  fixes c s :: real
  assumes "s * s + c * c = 1"
  shows "(x * c + y * s) * s + (y * c - x * s) * c = y"
    and "(x * c + y * s) * c - (y * c - x * s) * s = x"
proof -
  have "(x * c + y * s) * s + (y * c - x * s) * c = y * (s * s + c * c)"
    by (simp add: algebra_simps)
  then show "(x * c + y * s) * s + (y * c - x * s) * c = y" using assms by simp
  have "(x * c + y * s) * c - (y * c - x * s) * s = x * (s * s + c * c)"
    by (simp add: algebra_simps)
  then show "(x * c + y * s) * c - (y * c - x * s) * s = x" using assms by simp
qed

lemma sin_cos_unit: "sin (t :: real) * sin t + cos t * cos t = 1"
  using sin_cos_squared_add [of t] by (simp add: power2_eq_square)

lemma project_unproject: "project \<theta> origin (unproject \<theta> origin uv) = uv"
  by (cases uv, cases origin)
    (simp add: project_def unproject_def Let_def rotate_back [OF sin_cos_unit])

lemma unproject_project: "unproject \<theta> origin (project \<theta> origin p) = p"
  by (cases p, cases origin)
    (simp add: project_def unproject_def Let_def rotate_forth [OF sin_cos_unit])

lemma corridor_corners_projected:
  "map (project (angle r) (center r)) (corridor_corners r) =
     [(- along_extent r, - cross_extent r), (along_extent r, - cross_extent r),
      (along_extent r, cross_extent r), (- along_extent r, cross_extent r)]"
  by (simp add: corridor_corners_def project_unproject)

subsection \<open>Claims about the corridor\<close>

text \<open>
  The cross-axis part of the guarantee holds for the percentile sizing: at least
  \<open>min_pairs\<close> pairs have a governing distance within the returned cross-axis half-extent.
\<close>

lemma cross_axis_count_reached:
  assumes "compute_oriented_corridor margin path pairs min_pairs = Inr r"
  shows "min_pairs \<le> int (length (filter
           (\<lambda>p. governing_distance (angle r) (center r) p \<le> cross_extent r) pairs))"
proof -
  let ?g = "governing_distance (angle r) (center r)"
  have m: "1 \<le> min_pairs" "min_pairs \<le> int (length pairs)"
    using compute_oriented_corridor_Inr [OF assms] by simp_all
  have x: "cross_extent r = percentile_cross_extent (map ?g pairs) (nat min_pairs)"
    using compute_oriented_corridor_Inr [OF assms] by simp
  have "nat min_pairs \<le> length (filter (\<lambda>y. y \<le> cross_extent r) (map ?g pairs))"
    unfolding x using m by (intro percentile_reaches_count) auto
  also have "\<dots> = length (filter (\<lambda>p. ?g p \<le> cross_extent r) pairs)"
    by (simp add: filter_map comp_def)
  finally show ?thesis by simp
qed


text \<open>
  Claim C2: under the percentile method the returned cross-axis half-extent is the
  \<open>min_pairs\<close>-th smallest governing distance \<open>max \<bar>v\<^sub>o\<bar> \<bar>v\<^sub>d\<bar>\<close> of the pairs, and after
  reducing it by any positive amount fewer than \<open>min_pairs\<close> pairs have both endpoints
  within it.
\<close>

theorem percentile_cross_extent_minimal:
  assumes "compute_oriented_corridor margin path pairs min_pairs = Inr r"
  shows "cross_extent r =
           sort (map (governing_distance (angle r) (center r)) pairs) ! (nat min_pairs - 1) \<and>
         (\<forall>\<epsilon>>0. int (length (filter
              (\<lambda>(a, b). cross_distance (angle r) (center r) a \<le> cross_extent r - \<epsilon> \<and>
                        cross_distance (angle r) (center r) b \<le> cross_extent r - \<epsilon>)
              pairs)) < min_pairs)"
proof (intro conjI allI impI)
  let ?g = "governing_distance (angle r) (center r)"
  have m: "1 \<le> min_pairs" "min_pairs \<le> int (length pairs)"
    using compute_oriented_corridor_Inr [OF assms] by simp_all
  have x: "cross_extent r = percentile_cross_extent (map ?g pairs) (nat min_pairs)"
    using compute_oriented_corridor_Inr [OF assms] by simp
  then show "cross_extent r = sort (map ?g pairs) ! (nat min_pairs - 1)"
    by (simp add: percentile_cross_extent_def)
  fix \<epsilon> :: real
  assume e: "0 < \<epsilon>"
  have "length (filter
              (\<lambda>(a, b). cross_distance (angle r) (center r) a \<le> cross_extent r - \<epsilon> \<and>
                        cross_distance (angle r) (center r) b \<le> cross_extent r - \<epsilon>)
              pairs) \<le> length (filter (\<lambda>p. ?g p < cross_extent r) pairs)"
  proof (rule length_filter_mono)
    fix p
    assume "case p of (a, b) \<Rightarrow>
        cross_distance (angle r) (center r) a \<le> cross_extent r - \<epsilon> \<and>
        cross_distance (angle r) (center r) b \<le> cross_extent r - \<epsilon>"
    then show "?g p < cross_extent r"
      using e by (cases p) (auto simp: governing_distance_def)
  qed
  also have "\<dots> = length (filter (\<lambda>y. y < cross_extent r) (map ?g pairs))"
    by (simp add: filter_map comp_def)
  also have "\<dots> < nat min_pairs"
    unfolding x using m by (intro percentile_is_least) auto
  finally show "int (length (filter
              (\<lambda>(a, b). cross_distance (angle r) (center r) a \<le> cross_extent r - \<epsilon> \<and>
                        cross_distance (angle r) (center r) b \<le> cross_extent r - \<epsilon>)
              pairs)) < min_pairs"
    by simp
qed

theorem percentile_cross_extent_minimal_witness:
  "compute_oriented_corridor (1 / 10) [(37, - 122), (38, - 122)]
     [((37.2, - 122.1), (37.4, - 122.1)), ((37.3, - 121.7), (37.5, - 122.3)),
      ((37.6, - 121.5), (37.9, - 122)), ((37.5, - 122.7), (37.6, - 122.2)),
      ((37.1, - 122.9), (37.8, - 122.9))] 3 =
     Inr \<lparr>angle = - 90, center = (37.5, - 122), along_extent = 6 / 10, cross_extent = 1 / 2\<rparr> \<and>
   (1 / 2 :: real) =
     sort (map (governing_distance (- 90) (37.5, - 122))
       [((37.2, - 122.1), (37.4, - 122.1)), ((37.3, - 121.7), (37.5, - 122.3)),
        ((37.6, - 121.5), (37.9, - 122)), ((37.5, - 122.7), (37.6, - 122.2)),
        ((37.1, - 122.9), (37.8, - 122.9))]) ! (nat 3 - 1) \<and>
   (0 :: real) < 1 / 100 \<and>
   int (length (filter
      (\<lambda>(a, b). cross_distance (- 90) (37.5, - 122) a \<le> 1 / 2 - 1 / 100 \<and>
                cross_distance (- 90) (37.5, - 122) b \<le> 1 / 2 - 1 / 100)
      [((37.2, - 122.1), (37.4, - 122.1)), ((37.3, - 121.7), (37.5, - 122.3)),
       ((37.6, - 121.5), (37.9, - 122)), ((37.5, - 122.7), (37.6, - 122.2)),
       ((37.1, - 122.9), (37.8, - 122.9))])) < 3"
proof -
  let ?pairs = "[((37.2, - 122.1), (37.4, - 122.1)), ((37.3, - 121.7), (37.5, - 122.3)),
      ((37.6, - 121.5), (37.9, - 122)), ((37.5, - 122.7), (37.6, - 122.2)),
      ((37.1, - 122.9), (37.8, - 122.9))] :: (LatLon \<times> LatLon) list"
  let ?r = "\<lparr>angle = - 90, center = (37.5, - 122), along_extent = 6 / 10, cross_extent = 1 / 2\<rparr>"
  have c: "compute_oriented_corridor (1 / 10) [(37, - 122), (38, - 122)] ?pairs 3 = Inr ?r"
    by (simp add: compute_oriented_corridor_def estimate_orientation_def path_midpoint_def
        project_def governing_distance_def cross_distance_def percentile_cross_extent_def)
  note t = percentile_cross_extent_minimal [OF c]
  have s1: "cross_extent ?r =
      sort (map (governing_distance (angle ?r) (center ?r)) ?pairs) ! (nat 3 - 1)"
    using t by (rule conjunct1)
  have pos: "(0 :: real) < 1 / 100" by simp
  have s2: "int (length (filter
              (\<lambda>(a, b). cross_distance (angle ?r) (center ?r) a \<le> cross_extent ?r - 1 / 100 \<and>
                        cross_distance (angle ?r) (center ?r) b \<le> cross_extent ?r - 1 / 100)
              ?pairs)) < 3"
    using t pos by blast
  show ?thesis using c s1 s2 pos by simp
qed

text \<open>
  Claim C3: for every path and pair list, when \<open>min_pairs\<close> is strictly greater than the
  number of pairs supplied, \<open>compute_oriented_corridor\<close> raises \<open>InsufficientPairsError\<close> and
  returns no corridor.
\<close>

theorem insufficient_pairs_error:
  assumes "int (length pairs) < min_pairs"
  shows "compute_oriented_corridor margin path pairs min_pairs = Inl InsufficientPairsError \<and>
         (\<forall>r. compute_oriented_corridor margin path pairs min_pairs \<noteq> Inr r)"
  using assms by (simp add: compute_oriented_corridor_def)

theorem insufficient_pairs_error_witness:
  "int (length [((37.2, - 122.1), (37.4, - 122.1)) :: LatLon \<times> LatLon]) < 2 \<and>
   compute_oriented_corridor (1 / 10) [(37, - 122), (38, - 122)]
     [((37.2, - 122.1), (37.4, - 122.1))] 2 = Inl InsufficientPairsError \<and>
   int (length ([] :: (LatLon \<times> LatLon) list)) < 1 \<and>
   compute_oriented_corridor (1 / 10) [(37, - 122), (37, - 122)] [] 1 =
     Inl InsufficientPairsError"
  using insufficient_pairs_error
    [of "[((37.2, - 122.1), (37.4, - 122.1))]" 2 "1 / 10" "[(37, - 122), (38, - 122)]"]
    insufficient_pairs_error [of "[]" 1 "1 / 10" "[(37, - 122), (37, - 122)]"]
  by simp

text \<open>
  Claim C5: the result of \<open>filter_pairs_in_corridor\<close> is a subsequence of the input list in
  its original order, for every rectangle and either value of \<open>require_both\<close>.  The filter
  is a function of its arguments: it leaves the input as it is, and equal inputs give
  equal outputs.
\<close>

theorem filter_pairs_in_corridor_subseq:
  "subseq (filter_pairs_in_corridor pairs r require_both) pairs"
  by (simp add: filter_pairs_in_corridor_def)

text \<open>
  Claim C4: projecting a coordinate into the rotated frame and applying the inverse
  projection with the same angle and the same reference origin reproduces the coordinate,
  each component within \<open>10\<^sup>-\<^sup>9\<close> degrees.  In the arithmetic of this model the round trip
  is exact.
\<close>

theorem projector_round_trip:
  "unproject \<theta> origin (project \<theta> origin p) = p \<and>
   \<bar>fst (unproject \<theta> origin (project \<theta> origin p)) - fst p\<bar> \<le> 1 / 10 ^ 9 \<and>
   \<bar>snd (unproject \<theta> origin (project \<theta> origin p)) - snd p\<bar> \<le> 1 / 10 ^ 9"
  by (simp add: unproject_project)

end
